theory Spec2Isabelle
  imports Complex_Main
begin

section \<open>The event record (GHEP) as the event generation modules use it\<close>

text \<open>
  The modules under \<^verbatim>\<open>EVGModules\<close> are visitors of an event record
  (\<^verbatim>\<open>GHepRecord\<close>), an array of particles (\<^verbatim>\<open>GHepParticle\<close>).
  C++ \<^verbatim>\<open>double\<close> values are modelled as reals; rounding, infinities and NaN
  are outside the model.
\<close>

record TLorentzVector =
  lvX :: real
  lvY :: real
  lvZ :: real
  lvT :: real

record TVector3 =
  v3X :: real
  v3Y :: real
  v3Z :: real

text \<open>
  \<^verbatim>\<open>GHepStatus_t\<close> is an enumeration declared in \<^verbatim>\<open>GHEP/GHepStatus.h\<close>.
  The four enumerators below are the ones the modules name; \<open>kIStOther n\<close>
  stands for every other enumerator, by its integer value.
\<close>

datatype GHepStatus_t =
    kIStStableFinalState
  | kIStDecayedState
  | kIStDISPreFragmHadronicState
  | kIStHadronInTheNucleus
  | kIStOther int

record GHepParticle =
  Pdg :: int
  Status :: GHepStatus_t
  FirstMother :: int
  LastMother :: int
  FirstDaughter :: int
  LastDaughter :: int
  GetP4 :: TLorentzVector
  GetX4 :: TLorentzVector

text \<open>
  The part of \<^verbatim>\<open>Interaction\<close> the hadronic system generator reads and writes:
  the running value of the hadronic invariant mass \<open>W\<close> in its kinematics, and whether
  the target of its initial state is a nucleus.
\<close>

record Interaction =
  Kinematics_W :: real
  Target_IsNucleus :: bool

text \<open>
  \<^verbatim>\<open>GHepRecord\<close>: the particle array, the event flags (a \<^verbatim>\<open>TBits\<close>, here the
  function from bit number to bit) and the interaction summary attached to the event.
\<close>

record GHepRecord =
  particles :: "GHepParticle list"
  EventFlags :: "nat \<Rightarrow> bool"
  GetInteraction :: Interaction

text \<open>
  Modelled from the spec: \<^verbatim>\<open>GHepRecord::AddParticle\<close> is called by the modules but
  defined outside them. The spec describes the ledger as append-only with the operation
  "append a particle (species, status, mother index, 4-momentum, 4-position)": the new
  entry is put after the last one, with the eight arguments of the call as its fields.
  The bookkeeping of the mother's daughter indices, which the record does on its own,
  is not part of this model.
\<close>

definition AddParticle ::
  "int \<Rightarrow> GHepStatus_t \<Rightarrow> int \<Rightarrow> int \<Rightarrow> int \<Rightarrow> int \<Rightarrow> TLorentzVector \<Rightarrow> TLorentzVector
     \<Rightarrow> GHepRecord \<Rightarrow> GHepRecord" where
  "AddParticle pdg ist mom1 mom2 dau1 dau2 p v evrec =
     evrec\<lparr>particles := particles evrec @
       [\<lparr>Pdg = pdg, Status = ist, FirstMother = mom1, LastMother = mom2,
         FirstDaughter = dau1, LastDaughter = dau2, GetP4 = p, GetX4 = v\<rparr>]\<rparr>"

text \<open>
  A particle of a \<^verbatim>\<open>TClonesArray\<close> of \<^verbatim>\<open>TMCParticle\<close> (a LUJETS-like record), as
  hadronizers and decayers return it. A null container is \<open>None\<close>.
\<close>

record TMCParticle =
  GetKS :: int
  GetKF :: int
  GetPx :: real
  GetPy :: real
  GetPz :: real
  GetEnergy :: real

text \<open>
  How a call ends. \<open>Returned\<close>: the function returns. \<open>Thrown\<close>: it throws an
  \<^verbatim>\<open>EVGThreadException\<close>, which ends the generation of the current event only; the
  event record is kept as the function left it. \<open>Aborted\<close>: an \<^verbatim>\<open>assert\<close> fails or
  a null pointer is dereferenced, which ends the whole process.
\<close>

record EVGThreadException =
  Reason :: string
  FastForward :: bool

datatype 'a outcome = Returned 'a | Thrown EVGThreadException 'a | Aborted

section \<open>What the modules take from outside their files\<close>

text \<open>
  The process-wide singletons: the PDG library (\<^verbatim>\<open>PDGLibrary::Instance()->Find\<close>
  returns a null pointer, here \<open>None\<close>, for a code it does not hold) and the random
  number generator \<^verbatim>\<open>RandomGen::Instance()->Random1()\<close>, given by the sequence of
  the numbers its \<^verbatim>\<open>Rndm()\<close> returns.
\<close>

record TParticlePDG =
  Mass :: real
  Charge :: real
  Lifetime :: real

record Globals =
  PDGLibrary_Find :: "int \<Rightarrow> TParticlePDG option"
  Random1_Rndm :: "nat \<Rightarrow> real"

text \<open>
  The methods of the base class \<^verbatim>\<open>HadronicSystemGenerator\<close> (\<^verbatim>\<open>Hadronic4pLAB\<close>,
  \<^verbatim>\<open>HCM2LAB\<close>), ROOT's invariant mass and boost of a 4-vector, and the record's
  search for the entry of the hadronic system.
\<close>

record HadronicSystemGenerator_env = Globals +
  Hadronic4pLAB :: "GHepRecord \<Rightarrow> TLorentzVector"
  HCM2LAB :: "GHepRecord \<Rightarrow> TVector3"
  TLorentzVector_M :: "TLorentzVector \<Rightarrow> real"
  TLorentzVector_Boost :: "TVector3 \<Rightarrow> TLorentzVector \<Rightarrow> TLorentzVector"
  FinalStateHadronicSystemPosition :: "GHepRecord \<Rightarrow> int"

section \<open>DISHadronicSystemGenerator\<close>

text \<open>
  \<^verbatim>\<open>AddFragmentationProducts\<close> also takes the hadronization model and the number
  of the \<^verbatim>\<open>kNoAvailablePhaseSpace\<close> bit (\<^verbatim>\<open>GHEP/GHepFlags.h\<close>).
\<close>

record DISHadronic_env = HadronicSystemGenerator_env +
  Hadronize :: "Interaction \<Rightarrow> TMCParticle list option"
  kNoAvailablePhaseSpace :: nat

text \<open>
  The body of the loop over the fragmentation products (lines 121 to 133): every
  product is boosted to the LAB frame; the ones with \<open>KS = 1\<close> are copied to the record
  with status \<open>ist\<close> and mother \<open>mom\<close>.
\<close>

fun CopyFragmentationProducts ::
  "DISHadronic_env \<Rightarrow> TVector3 \<Rightarrow> GHepStatus_t \<Rightarrow> int \<Rightarrow> TLorentzVector
     \<Rightarrow> TMCParticle list \<Rightarrow> GHepRecord \<Rightarrow> GHepRecord" where
  "CopyFragmentationProducts env beta ist mom v4 [] evrec = evrec"
| "CopyFragmentationProducts env beta ist mom v4 (p # plist) evrec =
     (let p4 = TLorentzVector_Boost env beta
                 \<lparr>lvX = GetPx p, lvY = GetPy p, lvZ = GetPz p, lvT = GetEnergy p\<rparr>
      in CopyFragmentationProducts env beta ist mom v4 plist
           (if GetKS p = 1
            then AddParticle (GetKF p) ist mom (-1) (-1) (-1) p4 v4 evrec
            else evrec))"

definition AddFragmentationProducts :: "DISHadronic_env \<Rightarrow> GHepRecord \<Rightarrow> GHepRecord outcome" where
  "AddFragmentationProducts env evrec0 =
     (let p4Had = Hadronic4pLAB env evrec0;
          W = TLorentzVector_M env p4Had;
          interaction = (GetInteraction evrec0)\<lparr>Kinematics_W := W\<rparr>;
          evrec = evrec0\<lparr>GetInteraction := interaction\<rparr>
      in case Hadronize env interaction of
           None \<Rightarrow>
             Thrown \<lparr>Reason = ''Not enough phase space for hadronizer'', FastForward = True\<rparr>
               (evrec\<lparr>EventFlags := (EventFlags evrec)(kNoAvailablePhaseSpace env := True)\<rparr>)
         | Some plist \<Rightarrow>
             (let beta = HCM2LAB env evrec;
                  mom = FinalStateHadronicSystemPosition env evrec
              in if mom = -1 then Aborted
                 else
                   (let v4 = \<lparr>lvX = 0, lvY = 0, lvZ = 0, lvT = 0\<rparr>;
                        is_nucleus = Target_IsNucleus interaction;
                        ist = (if is_nucleus then kIStHadronInTheNucleus
                               else kIStStableFinalState)
                    in Returned (CopyFragmentationProducts env beta ist mom v4 plist evrec))))"

text \<open>The entries a call appended: those after the entries the record had before.\<close>

definition appended :: "GHepRecord \<Rightarrow> GHepRecord \<Rightarrow> GHepParticle list" where
  "appended before after = drop (length (particles before)) (particles after)"

section \<open>UnstableParticleDecayer\<close>

text \<open>
  What the decayer takes from outside its file: the decay model (a null container of
  decay products is \<open>None\<close>), \<^verbatim>\<open>utils::res::IsBaryonResonance\<close>, the configured
  maximum lifetime, the conversion \<^verbatim>\<open>GHepStatus_t(int)\<close> of a \<open>KS\<close> code to a status,
  and the PDG codes of \<^verbatim>\<open>PDG/PDGCodes.h\<close> it lists.
\<close>

record DecayerInputs_t =
  PdgCode :: int
  P4 :: TLorentzVector

record Decayer_env = Globals +
  Decay :: "DecayerInputs_t \<Rightarrow> TMCParticle list option"
  IsBaryonResonance :: "int \<Rightarrow> bool"
  fMaxLifetime :: real
  GHepStatus_of_KS :: "int \<Rightarrow> GHepStatus_t"
  kPdgPi0 :: int
  kPdgDP :: int
  kPdgDM :: int
  kPdgD0 :: int
  kPdgAntiD0 :: int
  kPdgDPs :: int
  kPdgDMs :: int
  kPdgLambdaPc :: int
  kPdgSigmaPc :: int
  kPdgSigmaPPc :: int

text \<open>
  \<^verbatim>\<open>IsUnstable\<close> reads the lifetime through the pointer \<^verbatim>\<open>Find\<close> returned, with
  no check: for a code the library does not hold the process ends (\<open>None\<close>). The
  comparison of the lifetime with the configured maximum has an empty branch (its
  \<^verbatim>\<open>return true\<close> is commented out) and decides nothing; the list of codes does.
\<close>

definition IsUnstable :: "Decayer_env \<Rightarrow> GHepParticle \<Rightarrow> bool option" where
  "IsUnstable env particle =
     (let pdg_code = Pdg particle
      in case PDGLibrary_Find env pdg_code of
           None \<Rightarrow> None
         | Some ppdg \<Rightarrow>
             (let lifetime_below_max = (Lifetime ppdg < fMaxLifetime env);
                  particles_to_decay =
                    [kPdgPi0 env,
                     kPdgDP env, kPdgDM env, kPdgD0 env, kPdgAntiD0 env, kPdgDPs env, kPdgDMs env,
                     kPdgLambdaPc env, kPdgSigmaPc env, kPdgSigmaPPc env];
                  matches = count_list particles_to_decay pdg_code
              in if matches > 0 \<or> IsBaryonResonance env pdg_code then Some True
                 else Some False))"

definition ToBeDecayed :: "Decayer_env \<Rightarrow> GHepParticle \<Rightarrow> bool option" where
  "ToBeDecayed env particle =
     (if Pdg particle \<noteq> 0 \<and> Status particle = kIStStableFinalState
      then IsUnstable env particle
      else Some False)"

fun CopyToEventRecord ::
  "Decayer_env \<Rightarrow> TMCParticle list \<Rightarrow> GHepRecord \<Rightarrow> int \<Rightarrow> GHepRecord" where
  "CopyToEventRecord env [] evrec mother_pos = evrec"
| "CopyToEventRecord env (dpmc # decay_products) evrec mother_pos =
     (let vdummy = \<lparr>lvX = 0, lvY = 0, lvZ = 0, lvT = 0\<rparr>;
          p4 = \<lparr>lvX = GetPx dpmc, lvY = GetPy dpmc, lvZ = GetPz dpmc, lvT = GetEnergy dpmc\<rparr>;
          pdg = GetKF dpmc;
          status = GHepStatus_of_KS env (GetKS dpmc)
      in CopyToEventRecord env decay_products
           (if status = kIStStableFinalState
            then AddParticle pdg status mother_pos (-1) (-1) (-1) p4 vdummy evrec
            else evrec)
           mother_pos)"

text \<open>
  One turn of the loop of \<^verbatim>\<open>ProcessEventRecord\<close> (lines 67 to 99), for the particle
  \<open>p\<close> at position \<open>ipos\<close>. \<^verbatim>\<open>SetStatus\<close> writes to the entry of the record
  the iterator points to.
\<close>

definition ProcessEventRecord_body :: "Decayer_env \<Rightarrow> nat \<Rightarrow> GHepRecord \<Rightarrow> GHepRecord outcome" where
  "ProcessEventRecord_body env ipos evrec =
     (let p = particles evrec ! ipos
      in case ToBeDecayed env p of
           None \<Rightarrow> Aborted
         | Some False \<Rightarrow> Returned evrec
         | Some True \<Rightarrow>
             (let p4 = GetP4 p;
                  dinp = \<lparr>PdgCode = Pdg p, P4 = p4\<rparr>
              in case Decay env dinp of
                   None \<Rightarrow> Returned evrec
                 | Some decay_products \<Rightarrow>
                     Returned
                       (CopyToEventRecord env decay_products
                          (evrec\<lparr>particles := (particles evrec)[ipos := p\<lparr>Status := kIStDecayedState\<rparr>]\<rparr>)
                          (int ipos))))"

text \<open>
  The loop itself. The iterator reads the array anew at every \<^verbatim>\<open>Next()\<close>, so the
  daughters a decay appended are visited later in the same loop, and nothing in the
  file bounds the number of turns: a run that never leaves the loop is \<open>None\<close>.
\<close>

partial_function (option) ProcessEventRecord_loop ::
  "Decayer_env \<Rightarrow> nat \<Rightarrow> GHepRecord \<Rightarrow> GHepRecord outcome option" where
  "ProcessEventRecord_loop env ipos evrec =
     (if ipos < length (particles evrec)
      then (case ProcessEventRecord_body env ipos evrec of
              Returned evrec' \<Rightarrow> ProcessEventRecord_loop env (Suc ipos) evrec'
            | Thrown e evrec' \<Rightarrow> Some (Thrown e evrec')
            | Aborted \<Rightarrow> Some Aborted)
      else Some (Returned evrec))"

definition ProcessEventRecord :: "Decayer_env \<Rightarrow> GHepRecord \<Rightarrow> GHepRecord outcome option" where
  "ProcessEventRecord env evrec = ProcessEventRecord_loop env 0 evrec"

section \<open>FragmentCharmDISGenerator\<close>

text \<open>
  What the charm fragmentation takes from outside its file, beyond its base class: the
  neutrino energy in the rest frame of the struck nucleon and the fragmentation function,
  given by the sequence of the values \<^verbatim>\<open>GenerateZ()\<close> returns.
\<close>

record FragmentCharm_env = HadronicSystemGenerator_env +
  GetProbeE :: "GHepRecord \<Rightarrow> real"
  FragmFunc_GenerateZ :: "nat \<Rightarrow> real"

text \<open>How many numbers have been taken from each of the two random sequences.\<close>

record RandomState =
  Rndm_calls :: nat
  GenerateZ_calls :: nat

definition CharmedHadronPdgCode :: "FragmentCharm_env \<Rightarrow> real \<Rightarrow> RandomState \<Rightarrow> int \<times> RandomState" where
  "CharmedHadronPdgCode env E rs =
     (let rndm = Random1_Rndm env (Rndm_calls rs);
          rs' = rs\<lparr>Rndm_calls := Suc (Rndm_calls rs)\<rparr>
      in (if E \<le> 20 then
            (if rndm \<le> 0.32 then 421
             else if rndm > 0.32 \<and> rndm \<le> 0.37 then 411
             else if rndm > 0.37 \<and> rndm \<le> 0.55 then 431
             else 4122)
          else if E > 20 \<and> E \<le> 40 then
            (if rndm \<le> 0.50 then 421
             else if rndm > 0.50 \<and> rndm \<le> 0.60 then 411
             else if rndm > 0.60 \<and> rndm \<le> 0.82 then 431
             else 4122)
          else
            (if rndm \<le> 0.64 then 421
             else if rndm > 0.64 \<and> rndm \<le> 0.86 then 411
             else if rndm > 0.86 \<and> rndm \<le> 0.95 then 431
             else 4122),
          rs'))"

text \<open>The local variables of \<^verbatim>\<open>GenerateCharmHadronOnly\<close> that its first loop writes.\<close>

record CharmHadronVars =
  var_itry :: int
  var_pdgc :: int
  var_z :: real
  var_m :: real
  var_EC :: real
  var_m2 :: real
  var_EC2 :: real
  var_p2 :: real
  var_rnd :: RandomState

text \<open>
  One try (lines 96 to 105). \<^verbatim>\<open>Find(pdgc)->Mass()\<close> reads through the pointer with
  no check: \<open>Aborted\<close> for a code the library does not hold.
\<close>

definition CharmHadronTry ::
  "FragmentCharm_env \<Rightarrow> real \<Rightarrow> real \<Rightarrow> real \<Rightarrow> CharmHadronVars \<Rightarrow> CharmHadronVars outcome" where
  "CharmHadronTry env E EHad MHad v =
     (let (pdgc1, rs1) = CharmedHadronPdgCode env E (var_rnd v);
          z1 = FragmFunc_GenerateZ env (GenerateZ_calls rs1);
          rs2 = rs1\<lparr>GenerateZ_calls := Suc (GenerateZ_calls rs1)\<rparr>
      in case PDGLibrary_Find env pdgc1 of
           None \<Rightarrow> Aborted
         | Some ppdg \<Rightarrow>
             (let m1 = Mass ppdg;
                  EC1 = z1 * EHad;
                  m21 = m1 ^ 2;
                  EC21 = EC1 ^ 2;
                  p21 = EC21 - m21
              in Returned
                   \<lparr>var_itry = var_itry v + 1,
                    var_pdgc = (if m1 > MHad \<or> p21 < 0 then 0 else pdgc1),
                    var_z = z1, var_m = m1, var_EC = EC1, var_m2 = m21, var_EC2 = EC21, var_p2 = p21,
                    var_rnd = rs2\<rparr>))"

lemma CharmHadronTry_itry:
  "CharmHadronTry env E EHad MHad v = Returned v' \<Longrightarrow> var_itry v' = var_itry v + 1"
  by (auto simp: CharmHadronTry_def Let_def split: prod.splits option.splits)

text \<open>The loop \<^verbatim>\<open>while(itry<1000 && pdgc==0)\<close> (lines 94 to 106).\<close>

function CharmHadronLoop ::
  "FragmentCharm_env \<Rightarrow> real \<Rightarrow> real \<Rightarrow> real \<Rightarrow> CharmHadronVars \<Rightarrow> CharmHadronVars outcome" where
  "CharmHadronLoop env E EHad MHad v =
     (if var_itry v < 1000 \<and> var_pdgc v = 0
      then (case CharmHadronTry env E EHad MHad v of
              Returned v' \<Rightarrow> CharmHadronLoop env E EHad MHad v'
            | Thrown e v' \<Rightarrow> Thrown e v'
            | Aborted \<Rightarrow> Aborted)
      else Returned v)"
  by pat_completeness auto
termination
  by (relation "measure (\<lambda>(env, E, EHad, MHad, v). nat (1000 - var_itry v))")
     (auto dest: CharmHadronTry_itry)

declare CharmHadronLoop.simps [simp del]

text \<open>
  \<^verbatim>\<open>GenerateCharmHadronOnly\<close> from its first line to the \<^verbatim>\<open>assert(pdgc!=0)\<close> of
  line 107: the choice of the charm hadron. The rest of the function (its transverse
  momentum, the remnant system, the two new entries of the record) is reached only
  when the assertion holds, with the values chosen here.
\<close>

definition GenerateCharmHadronOnly_pdgc ::
  "FragmentCharm_env \<Rightarrow> RandomState \<Rightarrow> GHepRecord \<Rightarrow> CharmHadronVars outcome" where
  "GenerateCharmHadronOnly_pdgc env rs evrec =
     (let P4Had = Hadronic4pLAB env evrec;
          E = GetProbeE env evrec;
          EHad = lvT P4Had;
          MHad = TLorentzVector_M env P4Had;
          v0 = \<lparr>var_itry = 0, var_pdgc = 0, var_z = 0, var_m = 0, var_EC = 0, var_m2 = 0, var_EC2 = 0, var_p2 = 0, var_rnd = rs\<rparr>
      in case CharmHadronLoop env E EHad MHad v0 of
           Returned v \<Rightarrow> (if var_pdgc v \<noteq> 0 then Returned v else Aborted)
         | Thrown e v \<Rightarrow> Thrown e v
         | Aborted \<Rightarrow> Aborted)"

section \<open>The intranuclear cascade\<close>

text \<open>
  \<^verbatim>\<open>Intranuke.h\<close> declares the cascade (\<^verbatim>\<open>HadronFate\<close>, \<^verbatim>\<open>MeanFreePath\<close>,
  \<^verbatim>\<open>TransportInPhysicalNuc\<close> and the others); the file that defines these methods is
  not among the sources. The definitions of this section follow the words of the
  specification instead, each under the sentence it models.
\<close>

subsection \<open>Channels and the selection of a fate\<close>

text \<open>
  Modelled from the spec: the type of the outcomes of a step; the definition of
  \<^verbatim>\<open>HadroProc_t\<close> (\<^verbatim>\<open>Conventions/HadroProc.h\<close>) is missing. "Fate: an enumerated
  outcome {NoInteraction/Escape, Elastic, Inelastic, Absorption, ChargeExchange}."
\<close>

datatype Fate = NoInteraction | Elastic | Inelastic | Absorption | ChargeExchange

text \<open>
  Modelled from the spec: the result of the InteractionChannelModel; the body of
  \<^verbatim>\<open>Intranuke::MeanFreePath\<close> is missing. "ChannelMeanFreePaths(hadron, rho) ->
  {channel: lambda_channel} for channels applicable to that hadron species": the
  channels with their mean free paths, in the fixed order of enumeration.
\<close>

type_synonym ChannelMeanFreePaths = "(Fate \<times> real) list"

text \<open>
  Modelled from the spec: a mean free path, a length or infinite; the cascade's own
  data types are missing. "If lambda is infinite (zero density, e.g., hadron already
  outside the nucleus or in a zero-density region), treat as immediate escape."
\<close>

datatype MeanFreePath = Finite real | Infinite

text \<open>
  Modelled from the spec: the total mean free path; the body of
  \<^verbatim>\<open>Intranuke::MeanFreePath\<close> is missing. "lambda_channel must each be strictly
  positive when density is positive; the policy for combining channels is the standard
  total mean free path is the harmonic-sum analogue:
  1/lambda_total = Sum 1/lambda_channel." Where the sum is 0, as it is for a species
  with no channel, no length has the inverse 0: the total mean free path is infinite.
\<close>

definition TotalMeanFreePath :: "ChannelMeanFreePaths \<Rightarrow> MeanFreePath" where
  "TotalMeanFreePath chans =
     (let s = (\<Sum>(c, l) \<leftarrow> chans. 1 / l)
      in if s = 0 then Infinite else Finite (1 / s))"

text \<open>
  Modelled from the spec: the selection probabilities of the FateSelector; the body of
  \<^verbatim>\<open>Intranuke::HadronFate\<close> is missing. "Each channel's selection probability is
  lambda_total/lambda_channel."
\<close>

definition ChannelProbabilities :: "ChannelMeanFreePaths \<Rightarrow> real \<Rightarrow> (Fate \<times> real) list" where
  "ChannelProbabilities chans lambda_total = map (\<lambda>(c, l). (c, lambda_total / l)) chans"

text \<open>
  Modelled from the spec: the FateSelector; the body of \<^verbatim>\<open>Intranuke::HadronFate\<close> is
  missing. "Partition [0,1) into consecutive segments per channel in a fixed,
  deterministic enumeration order and map u to the segment it falls in." The segment of
  a channel starts where the one before ends (\<open>lo\<close>) and is as long as the channel's
  probability; a number beyond the last segment selects no channel.
\<close>

fun SelectFate_from :: "real \<Rightarrow> (Fate \<times> real) list \<Rightarrow> real \<Rightarrow> Fate" where
  "SelectFate_from lo [] u = NoInteraction"
| "SelectFate_from lo ((c, p) # cs) u =
     (if u < lo + p then c else SelectFate_from (lo + p) cs u)"

text \<open>
  Modelled from the spec: the FateSelector on the channels of a hadron; the body of
  \<^verbatim>\<open>Intranuke::HadronFate\<close> is missing. "SelectFate(channelMeanFreePaths, lambda_total)
  -> Fate", for the uniform random number \<open>u\<close> it draws: the first segment starts at 0.
\<close>

definition SelectFate :: "ChannelMeanFreePaths \<Rightarrow> real \<Rightarrow> real \<Rightarrow> Fate" where
  "SelectFate chans lambda_total u =
     SelectFate_from 0 (ChannelProbabilities chans lambda_total) u"

subsection \<open>The transport status of a hadron\<close>

text \<open>
  Modelled from the spec: the transport status of a hadron; the cascade's own data
  types are missing. "A transport status drawn from {PreCascade, InFormationZone,
  Propagating, Escaped, Absorbed, Rescattered-Terminal}."
\<close>

datatype TransportStatus =
  PreCascade | InFormationZone | Propagating | Escaped | Absorbed | RescatteredTerminal

text \<open>
  Modelled from the spec: what the CascadeDriver finds at one step of a hadron's
  transport, that is, the conditions written on the arrows of the state machine of
  section 4.6 (the bodies of \<^verbatim>\<open>Intranuke::TransportInPhysicalNuc\<close> and of the methods
  it calls are missing):
  \<^item> \<open>NotRescatterable\<close>: "not rescatterable species";
  \<^item> \<open>FormationLengthComputed L\<close>: "formation length L computed";
  \<^item> \<open>FreeStreams\<close>: the hadron moves and "has traveled less than L";
  \<^item> \<open>TraveledFormationLength\<close>: "traveled >= L";
  \<^item> \<open>ExitsNucleusInFormation\<close>: "exits nucleus while still in formation";
  \<^item> \<open>StepperOutside\<close>: "Stepper: stillInside=false";
  \<^item> \<open>InteractionTriggered f\<close>: "Stepper: stillInside=true, interaction triggered",
    with the fate \<open>f\<close> the FateSelector returns;
  \<^item> \<open>StepBudgetExhausted\<close>: "step budget exhausted".
\<close>

datatype CascadeCondition =
    NotRescatterable
  | FormationLengthComputed real
  | FreeStreams
  | TraveledFormationLength
  | ExitsNucleusInFormation
  | StepperOutside
  | InteractionTriggered Fate
  | StepBudgetExhausted

text \<open>
  Modelled from the spec: the state machine of the CascadeDriver for one hadron
  (section 4.6; the body of \<^verbatim>\<open>Intranuke::TransportInPhysicalNuc\<close> is missing), one
  equation for each arrow, in the order of the table. \<open>None\<close>: the table has no such
  arrow. Beside the table:
  \<^item> section 4.2, "a formation length of 0 means the hadron becomes Propagating
    immediately", and "while the hadron has traveled less than L, it is force-set to
    status InFormationZone";
  \<^item> the status has no value for an interaction in progress: after an Elastic or a
    ChargeExchange outcome "status returns to Propagating", the value it had when the
    interaction was triggered;
  \<^item> a step at which the FateSelector selects no channel (\<open>NoInteraction\<close>) leaves
    the hadron propagating.
\<close>

fun CascadeDriver_transition :: "TransportStatus \<Rightarrow> CascadeCondition \<Rightarrow> TransportStatus option" where
  "CascadeDriver_transition PreCascade NotRescatterable = Some Escaped"
| "CascadeDriver_transition PreCascade (FormationLengthComputed L) =
     (if L = 0 then Some Propagating else Some InFormationZone)"
| "CascadeDriver_transition InFormationZone FreeStreams = Some InFormationZone"
| "CascadeDriver_transition InFormationZone TraveledFormationLength = Some Propagating"
| "CascadeDriver_transition InFormationZone ExitsNucleusInFormation = Some Escaped"
| "CascadeDriver_transition Propagating StepperOutside = Some Escaped"
| "CascadeDriver_transition Propagating (InteractionTriggered Elastic) = Some Propagating"
| "CascadeDriver_transition Propagating (InteractionTriggered ChargeExchange) = Some Propagating"
| "CascadeDriver_transition Propagating (InteractionTriggered Inelastic) = Some RescatteredTerminal"
| "CascadeDriver_transition Propagating (InteractionTriggered Absorption) = Some Absorbed"
| "CascadeDriver_transition Propagating (InteractionTriggered NoInteraction) = Some Propagating"
| "CascadeDriver_transition Propagating StepBudgetExhausted = Some Escaped"
| "CascadeDriver_transition _ _ = None"

text \<open>
  Modelled from the spec: a transport history, the statuses a hadron takes one after
  the other, from the status \<open>s\<close> it has to begin with, under the conditions the driver
  finds at its steps. \<open>None\<close>: the conditions are not a path of the state machine.
\<close>

fun TransportHistory :: "TransportStatus \<Rightarrow> CascadeCondition list \<Rightarrow> TransportStatus list option" where
  "TransportHistory s [] = Some [s]"
| "TransportHistory s (c # cs) =
     (case CascadeDriver_transition s c of
        None \<Rightarrow> None
      | Some s' \<Rightarrow> map_option ((#) s) (TransportHistory s' cs))"

text \<open>
  Modelled from the spec: the place of a status in the chain "PreCascade ->
  InFormationZone -> Propagating -> {Escaped | Absorbed | Rescattered-Terminal}" of the
  invariant of section 3.
\<close>

fun stage :: "TransportStatus \<Rightarrow> nat" where
  "stage PreCascade = 0"
| "stage InFormationZone = 1"
| "stage Propagating = 2"
| "stage Escaped = 3"
| "stage Absorbed = 3"
| "stage RescatteredTerminal = 3"

section \<open>Inputs for the examples\<close>

text \<open>
  A deep inelastic event on a nuclear target: the record holds the entry of the hadronic
  system, and the hadronizer returns a pion, a string (\<open>KS = 11\<close>) and a proton.
\<close>

definition ex_DIS_env :: DISHadronic_env where
  "ex_DIS_env =
     \<lparr>PDGLibrary_Find = (\<lambda>pdg. None),
      Random1_Rndm = (\<lambda>n. 0),
      Hadronic4pLAB = (\<lambda>evrec. \<lparr>lvX = 0, lvY = 0, lvZ = 3, lvT = 5\<rparr>),
      HCM2LAB = (\<lambda>evrec. \<lparr>v3X = 0, v3Y = 0, v3Z = 0\<rparr>),
      TLorentzVector_M = (\<lambda>v. 4),
      TLorentzVector_Boost = (\<lambda>beta v. v),
      FinalStateHadronicSystemPosition = (\<lambda>evrec. 0),
      Hadronize = (\<lambda>interaction.
        Some [\<lparr>GetKS = 1, GetKF = 211, GetPx = 0, GetPy = 0, GetPz = 1, GetEnergy = 2\<rparr>,
              \<lparr>GetKS = 11, GetKF = 92, GetPx = 0, GetPy = 0, GetPz = 0, GetEnergy = 4\<rparr>,
              \<lparr>GetKS = 1, GetKF = 2212, GetPx = 0, GetPy = 0, GetPz = -1, GetEnergy = 2\<rparr>]),
      kNoAvailablePhaseSpace = 3\<rparr>"

definition ex_DIS_evrec :: GHepRecord where
  "ex_DIS_evrec =
     \<lparr>particles =
        [\<lparr>Pdg = 0, Status = kIStDISPreFragmHadronicState, FirstMother = -1, LastMother = -1,
          FirstDaughter = -1, LastDaughter = -1,
          GetP4 = \<lparr>lvX = 0, lvY = 0, lvZ = 3, lvT = 5\<rparr>,
          GetX4 = \<lparr>lvX = 0, lvY = 0, lvZ = 0, lvT = 0\<rparr>\<rparr>],
      EventFlags = (\<lambda>n. False),
      GetInteraction = \<lparr>Kinematics_W = 0, Target_IsNucleus = True\<rparr>\<rparr>"

definition ex_DIS_evrec_after :: GHepRecord where
  "ex_DIS_evrec_after =
     \<lparr>particles =
        [\<lparr>Pdg = 0, Status = kIStDISPreFragmHadronicState, FirstMother = -1, LastMother = -1,
          FirstDaughter = -1, LastDaughter = -1,
          GetP4 = \<lparr>lvX = 0, lvY = 0, lvZ = 3, lvT = 5\<rparr>,
          GetX4 = \<lparr>lvX = 0, lvY = 0, lvZ = 0, lvT = 0\<rparr>\<rparr>,
         \<lparr>Pdg = 211, Status = kIStHadronInTheNucleus, FirstMother = 0, LastMother = -1,
          FirstDaughter = -1, LastDaughter = -1,
          GetP4 = \<lparr>lvX = 0, lvY = 0, lvZ = 1, lvT = 2\<rparr>,
          GetX4 = \<lparr>lvX = 0, lvY = 0, lvZ = 0, lvT = 0\<rparr>\<rparr>,
         \<lparr>Pdg = 2212, Status = kIStHadronInTheNucleus, FirstMother = 0, LastMother = -1,
          FirstDaughter = -1, LastDaughter = -1,
          GetP4 = \<lparr>lvX = 0, lvY = 0, lvZ = -1, lvT = 2\<rparr>,
          GetX4 = \<lparr>lvX = 0, lvY = 0, lvZ = 0, lvT = 0\<rparr>\<rparr>],
      EventFlags = (\<lambda>n. False),
      GetInteraction = \<lparr>Kinematics_W = 4, Target_IsNucleus = True\<rparr>\<rparr>"

text \<open>
  An event with a neutral pion and a neutral charmed meson, both final; the decay model
  of the example decays the pion to two photons and cannot handle the meson.
\<close>

definition ex_Decayer_env :: Decayer_env where
  "ex_Decayer_env =
     \<lparr>PDGLibrary_Find = (\<lambda>pdg. Some \<lparr>Mass = 1, Charge = 0, Lifetime = 0\<rparr>),
      Random1_Rndm = (\<lambda>n. 0),
      Decay = (\<lambda>dinp.
        if PdgCode dinp = 111
        then Some [\<lparr>GetKS = 1, GetKF = 22, GetPx = 0, GetPy = 0, GetPz = 1, GetEnergy = 1\<rparr>,
                   \<lparr>GetKS = 1, GetKF = 22, GetPx = 0, GetPy = 0, GetPz = -1, GetEnergy = 1\<rparr>]
        else None),
      IsBaryonResonance = (\<lambda>pdg. False),
      fMaxLifetime = 1 / 10 ^ 10,
      GHepStatus_of_KS = (\<lambda>ks. if ks = 1 then kIStStableFinalState else kIStOther ks),
      kPdgPi0 = 111,
      kPdgDP = 411, kPdgDM = -411, kPdgD0 = 421, kPdgAntiD0 = -421, kPdgDPs = 431, kPdgDMs = -431,
      kPdgLambdaPc = 4122, kPdgSigmaPc = 4212, kPdgSigmaPPc = 4222\<rparr>"

definition ex_Decayer_evrec :: GHepRecord where
  "ex_Decayer_evrec =
     \<lparr>particles =
        [\<lparr>Pdg = 111, Status = kIStStableFinalState, FirstMother = -1, LastMother = -1,
          FirstDaughter = -1, LastDaughter = -1,
          GetP4 = \<lparr>lvX = 0, lvY = 0, lvZ = 0, lvT = 2\<rparr>,
          GetX4 = \<lparr>lvX = 0, lvY = 0, lvZ = 0, lvT = 0\<rparr>\<rparr>,
         \<lparr>Pdg = 421, Status = kIStStableFinalState, FirstMother = -1, LastMother = -1,
          FirstDaughter = -1, LastDaughter = -1,
          GetP4 = \<lparr>lvX = 0, lvY = 0, lvZ = 1, lvT = 3\<rparr>,
          GetX4 = \<lparr>lvX = 0, lvY = 0, lvZ = 0, lvT = 0\<rparr>\<rparr>],
      EventFlags = (\<lambda>n. False),
      GetInteraction = \<lparr>Kinematics_W = 0, Target_IsNucleus = False\<rparr>\<rparr>"

text \<open>
  A charm production event whose hadronic system has the invariant mass 1.5 GeV, below
  the mass of every charmed hadron of the table of \<^verbatim>\<open>CharmedHadronPdgCode\<close>.
\<close>

definition ex_Charm_env :: FragmentCharm_env where
  "ex_Charm_env =
     \<lparr>PDGLibrary_Find = (\<lambda>pdg.
        if pdg = 421 then Some \<lparr>Mass = 18645 / 10000, Charge = 0, Lifetime = 0\<rparr>
        else if pdg = 411 then Some \<lparr>Mass = 18693 / 10000, Charge = 3, Lifetime = 0\<rparr>
        else if pdg = 431 then Some \<lparr>Mass = 19682 / 10000, Charge = 3, Lifetime = 0\<rparr>
        else if pdg = 4122 then Some \<lparr>Mass = 22849 / 10000, Charge = 3, Lifetime = 0\<rparr>
        else None),
      Random1_Rndm = (\<lambda>n. 1 / 2),
      Hadronic4pLAB = (\<lambda>evrec. \<lparr>lvX = 0, lvY = 0, lvZ = 2, lvT = 5 / 2\<rparr>),
      HCM2LAB = (\<lambda>evrec. \<lparr>v3X = 0, v3Y = 0, v3Z = 0\<rparr>),
      TLorentzVector_M = (\<lambda>v. 3 / 2),
      TLorentzVector_Boost = (\<lambda>beta v. v),
      FinalStateHadronicSystemPosition = (\<lambda>evrec. 0),
      GetProbeE = (\<lambda>evrec. 10),
      FragmFunc_GenerateZ = (\<lambda>n. 1 / 2)\<rparr>"

definition ex_Charm_evrec :: GHepRecord where
  "ex_Charm_evrec =
     \<lparr>particles =
        [\<lparr>Pdg = 0, Status = kIStDISPreFragmHadronicState, FirstMother = -1, LastMother = -1,
          FirstDaughter = -1, LastDaughter = -1,
          GetP4 = \<lparr>lvX = 0, lvY = 0, lvZ = 2, lvT = 5 / 2\<rparr>,
          GetX4 = \<lparr>lvX = 0, lvY = 0, lvZ = 0, lvT = 0\<rparr>\<rparr>],
      EventFlags = (\<lambda>n. False),
      GetInteraction = \<lparr>Kinematics_W = 3 / 2, Target_IsNucleus = True\<rparr>\<rparr>"

text \<open>
  Four channels with the mean free paths 2, 4, 8 and 8.
\<close>

definition ex_channels :: ChannelMeanFreePaths where
  "ex_channels = [(Elastic, 2), (Inelastic, 4), (Absorption, 8), (ChargeExchange, 8)]"

text \<open>
  A transport history: a formation zone, two interactions the hadron survives, and its
  absorption.
\<close>

definition ex_conditions :: "CascadeCondition list" where
  "ex_conditions =
     [FormationLengthComputed 2, FreeStreams, TraveledFormationLength,
      InteractionTriggered Elastic, InteractionTriggered ChargeExchange,
      InteractionTriggered Absorption]"

definition ex_history :: "TransportStatus list" where
  "ex_history =
     [PreCascade, InFormationZone, InFormationZone, Propagating, Propagating, Propagating,
      Absorbed]"

section \<open>Properties\<close>

subsection \<open>Status of the fragmentation products\<close>

lemma CopyFragmentationProducts_particles:
  "particles (CopyFragmentationProducts env beta ist mom v4 plist evrec) =
     particles evrec @
       map (\<lambda>p. \<lparr>Pdg = GetKF p, Status = ist, FirstMother = mom, LastMother = -1,
                 FirstDaughter = -1, LastDaughter = -1,
                 GetP4 = TLorentzVector_Boost env beta
                   \<lparr>lvX = GetPx p, lvY = GetPy p, lvZ = GetPz p, lvT = GetEnergy p\<rparr>,
                 GetX4 = v4\<rparr>)
         (filter (\<lambda>p. GetKS p = 1) plist)"
  by (induction plist arbitrary: evrec) (simp_all add: Let_def AddParticle_def)

text \<open>
  Claim C9. The entries \<^verbatim>\<open>AddFragmentationProducts\<close> appends to the event record are
  the hadronizer's products with \<open>KS = 1\<close>, in their order, after the entries the record
  had. Each of them has the status \<open>kIStHadronInTheNucleus\<close> when the target of the
  interaction is a nucleus and \<open>kIStStableFinalState\<close> when it is not; so it has the first
  status exactly when the target is a nucleus, and the second exactly when it is not.
\<close>

theorem AddFragmentationProducts_status_tag:
  assumes "AddFragmentationProducts env evrec = Returned evrec'"
  shows "particles evrec' = particles evrec @ appended evrec evrec'
       \<and> (\<forall>q \<in> set (appended evrec evrec').
            Status q = (if Target_IsNucleus (GetInteraction evrec)
                        then kIStHadronInTheNucleus else kIStStableFinalState)
          \<and> (Status q = kIStHadronInTheNucleus) = Target_IsNucleus (GetInteraction evrec)
          \<and> (Status q = kIStStableFinalState) = (\<not> Target_IsNucleus (GetInteraction evrec)))
       \<and> (\<exists>plist.
            Hadronize env ((GetInteraction evrec)
               \<lparr>Kinematics_W := TLorentzVector_M env (Hadronic4pLAB env evrec)\<rparr>) = Some plist
          \<and> map Pdg (appended evrec evrec') = map GetKF (filter (\<lambda>p. GetKS p = 1) plist))"
proof -
  let ?ia = "(GetInteraction evrec)\<lparr>Kinematics_W := TLorentzVector_M env (Hadronic4pLAB env evrec)\<rparr>"
  let ?ev = "evrec\<lparr>GetInteraction := ?ia\<rparr>"
  from assms obtain plist where h: "Hadronize env ?ia = Some plist"
    by (cases "Hadronize env ?ia") (simp_all add: AddFragmentationProducts_def Let_def)
  let ?ist = "if Target_IsNucleus (GetInteraction evrec)
              then kIStHadronInTheNucleus else kIStStableFinalState"
  from assms h have r: "evrec' = CopyFragmentationProducts env (HCM2LAB env ?ev) ?ist
      (FinalStateHadronicSystemPosition env ?ev) \<lparr>lvX = 0, lvY = 0, lvZ = 0, lvT = 0\<rparr> plist ?ev"
    by (simp add: AddFragmentationProducts_def Let_def split: if_splits)
  have p: "particles evrec' = particles evrec @
       map (\<lambda>p. \<lparr>Pdg = GetKF p, Status = ?ist,
                 FirstMother = FinalStateHadronicSystemPosition env ?ev, LastMother = -1,
                 FirstDaughter = -1, LastDaughter = -1,
                 GetP4 = TLorentzVector_Boost env (HCM2LAB env ?ev)
                   \<lparr>lvX = GetPx p, lvY = GetPy p, lvZ = GetPz p, lvT = GetEnergy p\<rparr>,
                 GetX4 = \<lparr>lvX = 0, lvY = 0, lvZ = 0, lvT = 0\<rparr>\<rparr>)
         (filter (\<lambda>p. GetKS p = 1) plist)"
    unfolding r CopyFragmentationProducts_particles by simp
  have a: "appended evrec evrec' =
       map (\<lambda>p. \<lparr>Pdg = GetKF p, Status = ?ist,
                 FirstMother = FinalStateHadronicSystemPosition env ?ev, LastMother = -1,
                 FirstDaughter = -1, LastDaughter = -1,
                 GetP4 = TLorentzVector_Boost env (HCM2LAB env ?ev)
                   \<lparr>lvX = GetPx p, lvY = GetPy p, lvZ = GetPz p, lvT = GetEnergy p\<rparr>,
                 GetX4 = \<lparr>lvX = 0, lvY = 0, lvZ = 0, lvT = 0\<rparr>\<rparr>)
         (filter (\<lambda>p. GetKS p = 1) plist)"
    unfolding appended_def p by simp
  have c1: "particles evrec' = particles evrec @ appended evrec evrec'"
    unfolding a by (rule p)
  have c2: "\<forall>q \<in> set (appended evrec evrec').
            Status q = ?ist
          \<and> (Status q = kIStHadronInTheNucleus) = Target_IsNucleus (GetInteraction evrec)
          \<and> (Status q = kIStStableFinalState) = (\<not> Target_IsNucleus (GetInteraction evrec))"
    unfolding a by auto
  have c3: "map Pdg (appended evrec evrec') = map GetKF (filter (\<lambda>p. GetKS p = 1) plist)"
    unfolding a by (simp add: comp_def)
  from c1 c2 c3 h show ?thesis by blast
qed

lemma ex_DIS_run:
  "AddFragmentationProducts ex_DIS_env ex_DIS_evrec = Returned ex_DIS_evrec_after"
  by (simp add: AddFragmentationProducts_def ex_DIS_env_def ex_DIS_evrec_def
        ex_DIS_evrec_after_def Let_def AddParticle_def)

theorem AddFragmentationProducts_status_tag_witness:
  "AddFragmentationProducts ex_DIS_env ex_DIS_evrec = Returned ex_DIS_evrec_after
   \<and> length (appended ex_DIS_evrec ex_DIS_evrec_after) = 2
   \<and> list_all (\<lambda>q. Status q = kIStHadronInTheNucleus) (appended ex_DIS_evrec ex_DIS_evrec_after)
   \<and> Target_IsNucleus (GetInteraction ex_DIS_evrec)"
proof -
  have n: "Target_IsNucleus (GetInteraction ex_DIS_evrec)"
    by (simp add: ex_DIS_evrec_def)
  have l: "length (appended ex_DIS_evrec ex_DIS_evrec_after) = 2"
    by (simp add: appended_def ex_DIS_evrec_def ex_DIS_evrec_after_def)
  from AddFragmentationProducts_status_tag [OF ex_DIS_run] n
  have "\<forall>q \<in> set (appended ex_DIS_evrec ex_DIS_evrec_after). Status q = kIStHadronInTheNucleus"
    by simp
  then have "list_all (\<lambda>q. Status q = kIStHadronInTheNucleus) (appended ex_DIS_evrec ex_DIS_evrec_after)"
    by (simp add: list_all_iff)
  with ex_DIS_run n l show ?thesis by simp
qed

subsection \<open>The decayer and a null container of decay products\<close>

lemma CopyToEventRecord_particles:
  "particles (CopyToEventRecord env decay_products evrec mother_pos) =
     particles evrec @
       map (\<lambda>d. \<lparr>Pdg = GetKF d, Status = kIStStableFinalState, FirstMother = mother_pos,
                 LastMother = -1, FirstDaughter = -1, LastDaughter = -1,
                 GetP4 = \<lparr>lvX = GetPx d, lvY = GetPy d, lvZ = GetPz d, lvT = GetEnergy d\<rparr>,
                 GetX4 = \<lparr>lvX = 0, lvY = 0, lvZ = 0, lvT = 0\<rparr>\<rparr>)
         (filter (\<lambda>d. GHepStatus_of_KS env (GetKS d) = kIStStableFinalState) decay_products)"
  by (induction decay_products arbitrary: evrec) (simp_all add: Let_def AddParticle_def)

lemma CopyToEventRecord_rest:
  "EventFlags (CopyToEventRecord env decay_products evrec mother_pos) = EventFlags evrec"
  "GetInteraction (CopyToEventRecord env decay_products evrec mother_pos) = GetInteraction evrec"
  by (induction decay_products arbitrary: evrec) (simp_all add: Let_def AddParticle_def)

lemma ToBeDecayed_True_stable:
  "ToBeDecayed env p = Some True \<Longrightarrow> Status p = kIStStableFinalState \<and> Pdg p \<noteq> 0"
  by (simp add: ToBeDecayed_def split: if_splits)

text \<open>
  Claim C10. For the particle at a position \<open>ipos\<close> of the record that the loop of
  \<^verbatim>\<open>ProcessEventRecord\<close> visits:
  \<^item> when the particle is to be decayed and the decay model returns a null container, the
    turn of the loop leaves the event record as it is, the status of the particle (stable
    final state) included;
  \<^item> a turn that returns a record other than the one it was given is a turn at which the
    particle was to be decayed and the decay model returned a container;
  \<^item> when the decay model returns a container, the status of the particle becomes
    \<open>kIStDecayedState\<close>, no other entry changes, and the products with the status of a
    stable final state are appended as daughters of the particle.
\<close>

theorem ProcessEventRecord_body_decay:
  assumes "ipos < length (particles evrec)"
  shows
   "(ToBeDecayed env (particles evrec ! ipos) = Some True
       \<and> Decay env \<lparr>PdgCode = Pdg (particles evrec ! ipos), P4 = GetP4 (particles evrec ! ipos)\<rparr> = None
     \<longrightarrow> ProcessEventRecord_body env ipos evrec = Returned evrec
         \<and> Status (particles evrec ! ipos) = kIStStableFinalState)
  \<and> (\<forall>evrec'. ProcessEventRecord_body env ipos evrec = Returned evrec' \<and> evrec' \<noteq> evrec
     \<longrightarrow> ToBeDecayed env (particles evrec ! ipos) = Some True
         \<and> Decay env \<lparr>PdgCode = Pdg (particles evrec ! ipos), P4 = GetP4 (particles evrec ! ipos)\<rparr> \<noteq> None)
  \<and> (\<forall>decay_products. ToBeDecayed env (particles evrec ! ipos) = Some True
       \<and> Decay env \<lparr>PdgCode = Pdg (particles evrec ! ipos), P4 = GetP4 (particles evrec ! ipos)\<rparr>
           = Some decay_products
     \<longrightarrow> (\<exists>evrec'. ProcessEventRecord_body env ipos evrec = Returned evrec'
           \<and> evrec' \<noteq> evrec
           \<and> Status (particles evrec' ! ipos) = kIStDecayedState
           \<and> take (length (particles evrec)) (particles evrec') =
               (particles evrec)[ipos := (particles evrec ! ipos)\<lparr>Status := kIStDecayedState\<rparr>]
           \<and> map Pdg (appended evrec evrec') =
               map GetKF (filter (\<lambda>d. GHepStatus_of_KS env (GetKS d) = kIStStableFinalState)
                            decay_products)
           \<and> (\<forall>q \<in> set (appended evrec evrec').
                 Status q = kIStStableFinalState \<and> FirstMother q = int ipos)))"
proof -
  let ?p = "particles evrec ! ipos"
  let ?dinp = "\<lparr>PdgCode = Pdg ?p, P4 = GetP4 ?p\<rparr>"
  have a: "ProcessEventRecord_body env ipos evrec = Returned evrec
         \<and> Status ?p = kIStStableFinalState"
    if "ToBeDecayed env ?p = Some True" "Decay env ?dinp = None"
    using that ToBeDecayed_True_stable [of env ?p]
    by (simp add: ProcessEventRecord_body_def Let_def)
  have b: "ToBeDecayed env ?p = Some True \<and> Decay env ?dinp \<noteq> None"
    if "ProcessEventRecord_body env ipos evrec = Returned evrec'" "evrec' \<noteq> evrec" for evrec'
    using that
    by (auto simp: ProcessEventRecord_body_def Let_def split: option.splits bool.splits)
  have c: "\<exists>evrec'. ProcessEventRecord_body env ipos evrec = Returned evrec'
           \<and> evrec' \<noteq> evrec
           \<and> Status (particles evrec' ! ipos) = kIStDecayedState
           \<and> take (length (particles evrec)) (particles evrec') =
               (particles evrec)[ipos := ?p\<lparr>Status := kIStDecayedState\<rparr>]
           \<and> map Pdg (appended evrec evrec') =
               map GetKF (filter (\<lambda>d. GHepStatus_of_KS env (GetKS d) = kIStStableFinalState)
                            decay_products)
           \<and> (\<forall>q \<in> set (appended evrec evrec').
                 Status q = kIStStableFinalState \<and> FirstMother q = int ipos)"
    if t: "ToBeDecayed env ?p = Some True" and d: "Decay env ?dinp = Some decay_products"
    for decay_products
  proof -
    let ?ev = "evrec\<lparr>particles := (particles evrec)[ipos := ?p\<lparr>Status := kIStDecayedState\<rparr>]\<rparr>"
    let ?ev' = "CopyToEventRecord env decay_products ?ev (int ipos)"
    have r: "ProcessEventRecord_body env ipos evrec = Returned ?ev'"
      using t d by (simp add: ProcessEventRecord_body_def Let_def)
    have st: "Status ?p = kIStStableFinalState"
      using ToBeDecayed_True_stable [OF t] by simp
    have s: "Status (particles ?ev' ! ipos) = kIStDecayedState"
      using assms by (simp add: CopyToEventRecord_particles nth_append)
    have ne: "?ev' \<noteq> evrec"
    proof
      assume "?ev' = evrec"
      then have "Status (particles ?ev' ! ipos) = Status ?p" by simp
      with s st show False by simp
    qed
    have tk: "take (length (particles evrec)) (particles ?ev') =
               (particles evrec)[ipos := ?p\<lparr>Status := kIStDecayedState\<rparr>]"
      by (simp add: CopyToEventRecord_particles)
    have ap: "appended evrec ?ev' =
       map (\<lambda>d. \<lparr>Pdg = GetKF d, Status = kIStStableFinalState, FirstMother = int ipos,
                 LastMother = -1, FirstDaughter = -1, LastDaughter = -1,
                 GetP4 = \<lparr>lvX = GetPx d, lvY = GetPy d, lvZ = GetPz d, lvT = GetEnergy d\<rparr>,
                 GetX4 = \<lparr>lvX = 0, lvY = 0, lvZ = 0, lvT = 0\<rparr>\<rparr>)
         (filter (\<lambda>d. GHepStatus_of_KS env (GetKS d) = kIStStableFinalState) decay_products)"
      by (simp add: appended_def CopyToEventRecord_particles)
    have m: "map Pdg (appended evrec ?ev') =
               map GetKF (filter (\<lambda>d. GHepStatus_of_KS env (GetKS d) = kIStStableFinalState)
                            decay_products)"
      unfolding ap by (simp add: comp_def)
    have q: "\<forall>q \<in> set (appended evrec ?ev').
                 Status q = kIStStableFinalState \<and> FirstMother q = int ipos"
      unfolding ap by auto
    from r ne s tk m q show ?thesis by blast
  qed
  from a b c show ?thesis by blast
qed

text \<open>
  The whole loop, for a decay model that returns a null container for every particle:
  it ends and returns the event record unchanged.
\<close>

lemma ProcessEventRecord_loop_no_decay:
  assumes "\<forall>dinp. Decay env dinp = None"
      and "\<forall>p \<in> set (particles evrec). ToBeDecayed env p \<noteq> None"
  shows "ProcessEventRecord_loop env ipos evrec = Some (Returned evrec)"
proof (induction "length (particles evrec) - ipos" arbitrary: ipos)
  case 0
  then show ?case by (simp add: ProcessEventRecord_loop.simps)
next
  case (Suc n)
  then have lt: "ipos < length (particles evrec)" by simp
  then have "ToBeDecayed env (particles evrec ! ipos) \<noteq> None"
    using assms(2) by simp
  then have b: "ProcessEventRecord_body env ipos evrec = Returned evrec"
    using assms(1)
    by (auto simp: ProcessEventRecord_body_def Let_def split: option.splits bool.splits)
  from Suc have "n = length (particles evrec) - Suc ipos" by simp
  from Suc(1) [OF this] lt b show ?case
    by (subst ProcessEventRecord_loop.simps) simp
qed

lemma ex_Decayer_ToBeDecayed:
  "ToBeDecayed ex_Decayer_env (particles ex_Decayer_evrec ! 0) = Some True"
  "ToBeDecayed ex_Decayer_env (particles ex_Decayer_evrec ! 1) = Some True"
  by (simp_all add: ToBeDecayed_def IsUnstable_def ex_Decayer_env_def ex_Decayer_evrec_def)

lemma ex_Decayer_Decay:
  "Decay ex_Decayer_env
     \<lparr>PdgCode = Pdg (particles ex_Decayer_evrec ! 0), P4 = GetP4 (particles ex_Decayer_evrec ! 0)\<rparr> =
   Some [\<lparr>GetKS = 1, GetKF = 22, GetPx = 0, GetPy = 0, GetPz = 1, GetEnergy = 1\<rparr>,
         \<lparr>GetKS = 1, GetKF = 22, GetPx = 0, GetPy = 0, GetPz = -1, GetEnergy = 1\<rparr>]"
  "Decay ex_Decayer_env
     \<lparr>PdgCode = Pdg (particles ex_Decayer_evrec ! 1), P4 = GetP4 (particles ex_Decayer_evrec ! 1)\<rparr> =
   None"
  by (simp_all add: ex_Decayer_env_def ex_Decayer_evrec_def)

theorem ProcessEventRecord_body_decay_witness:
  "ProcessEventRecord_body ex_Decayer_env 1 ex_Decayer_evrec = Returned ex_Decayer_evrec
   \<and> Status (particles ex_Decayer_evrec ! 1) = kIStStableFinalState
   \<and> (\<exists>evrec'. ProcessEventRecord_body ex_Decayer_env 0 ex_Decayer_evrec = Returned evrec'
        \<and> evrec' \<noteq> ex_Decayer_evrec
        \<and> Status (particles evrec' ! 0) = kIStDecayedState
        \<and> map Pdg (appended ex_Decayer_evrec evrec') = [22, 22])"
proof -
  have l0: "0 < length (particles ex_Decayer_evrec)" and l1: "1 < length (particles ex_Decayer_evrec)"
    by (simp_all add: ex_Decayer_evrec_def)
  have k: "GHepStatus_of_KS ex_Decayer_env 1 = kIStStableFinalState"
    by (simp add: ex_Decayer_env_def)
  from ProcessEventRecord_body_decay [OF l1, of ex_Decayer_env]
    ex_Decayer_ToBeDecayed(2) ex_Decayer_Decay(2)
  have a: "ProcessEventRecord_body ex_Decayer_env 1 ex_Decayer_evrec = Returned ex_Decayer_evrec
   \<and> Status (particles ex_Decayer_evrec ! 1) = kIStStableFinalState"
    by blast
  from ProcessEventRecord_body_decay [OF l0, of ex_Decayer_env]
    ex_Decayer_ToBeDecayed(1) ex_Decayer_Decay(1)
  have "\<exists>evrec'. ProcessEventRecord_body ex_Decayer_env 0 ex_Decayer_evrec = Returned evrec'
        \<and> evrec' \<noteq> ex_Decayer_evrec
        \<and> Status (particles evrec' ! 0) = kIStDecayedState
        \<and> map Pdg (appended ex_Decayer_evrec evrec') =
            map GetKF (filter (\<lambda>d. GHepStatus_of_KS ex_Decayer_env (GetKS d) = kIStStableFinalState)
              [\<lparr>GetKS = 1, GetKF = 22, GetPx = 0, GetPy = 0, GetPz = 1, GetEnergy = 1\<rparr>,
               \<lparr>GetKS = 1, GetKF = 22, GetPx = 0, GetPy = 0, GetPz = -1, GetEnergy = 1\<rparr>])"
    by blast
  then have c: "\<exists>evrec'. ProcessEventRecord_body ex_Decayer_env 0 ex_Decayer_evrec = Returned evrec'
        \<and> evrec' \<noteq> ex_Decayer_evrec
        \<and> Status (particles evrec' ! 0) = kIStDecayedState
        \<and> map Pdg (appended ex_Decayer_evrec evrec') = [22, 22]"
    by (simp add: k)
  from a c show ?thesis by blast
qed

text \<open>
  The whole loop on the example: the pion decays, the meson stays as it is, and the two
  photons the decay appended are visited in the same loop and found stable.
\<close>

lemma ex_Decayer_whole_loop:
  "ProcessEventRecord ex_Decayer_env ex_Decayer_evrec =
     Some (Returned
       (ex_Decayer_evrec\<lparr>particles :=
          [(particles ex_Decayer_evrec ! 0)\<lparr>Status := kIStDecayedState\<rparr>,
           particles ex_Decayer_evrec ! 1,
           \<lparr>Pdg = 22, Status = kIStStableFinalState, FirstMother = 0, LastMother = -1,
            FirstDaughter = -1, LastDaughter = -1,
            GetP4 = \<lparr>lvX = 0, lvY = 0, lvZ = 1, lvT = 1\<rparr>,
            GetX4 = \<lparr>lvX = 0, lvY = 0, lvZ = 0, lvT = 0\<rparr>\<rparr>,
           \<lparr>Pdg = 22, Status = kIStStableFinalState, FirstMother = 0, LastMother = -1,
            FirstDaughter = -1, LastDaughter = -1,
            GetP4 = \<lparr>lvX = 0, lvY = 0, lvZ = -1, lvT = 1\<rparr>,
            GetX4 = \<lparr>lvX = 0, lvY = 0, lvZ = 0, lvT = 0\<rparr>\<rparr>]\<rparr>))"
  by (simp add: ProcessEventRecord_def ProcessEventRecord_loop.simps ProcessEventRecord_body_def
        ToBeDecayed_def IsUnstable_def AddParticle_def Let_def
        ex_Decayer_env_def ex_Decayer_evrec_def)

subsection \<open>The retry loop of the charm fragmentation\<close>

lemma CharmedHadronPdgCode_range:
  "fst (CharmedHadronPdgCode env E rs) \<in> {421, 411, 431, 4122}"
  by (simp add: CharmedHadronPdgCode_def Let_def)

lemma CharmHadronTry_rejected:
  assumes "\<forall>pdg ppdg. PDGLibrary_Find env pdg = Some ppdg \<longrightarrow> MHad < Mass ppdg"
      and "\<forall>pdg \<in> {421, 411, 431, 4122}. PDGLibrary_Find env pdg \<noteq> None"
  shows "\<exists>v'. CharmHadronTry env E EHad MHad v = Returned v' \<and> var_pdgc v' = 0
            \<and> var_itry v' = var_itry v + 1"
proof -
  obtain c rs1 where c: "CharmedHadronPdgCode env E (var_rnd v) = (c, rs1)"
    by (cases "CharmedHadronPdgCode env E (var_rnd v)")
  with CharmedHadronPdgCode_range [of env E "var_rnd v"] have "c \<in> {421, 411, 431, 4122}"
    by simp
  with assms(2) obtain ppdg where f: "PDGLibrary_Find env c = Some ppdg"
    by blast
  with assms(1) have "MHad < Mass ppdg" by blast
  with c f show ?thesis
    by (simp add: CharmHadronTry_def Let_def)
qed

text \<open>
  When every charmed hadron the library holds is heavier than the hadronic system, every
  try is rejected: the loop stops after its 1000th try with \<open>pdgc = 0\<close>.
\<close>

lemma CharmHadronLoop_all_rejected:
  "\<forall>pdg ppdg. PDGLibrary_Find env pdg = Some ppdg \<longrightarrow> MHad < Mass ppdg \<Longrightarrow>
   \<forall>pdg \<in> {421, 411, 431, 4122}. PDGLibrary_Find env pdg \<noteq> None \<Longrightarrow>
   var_pdgc v = 0 \<Longrightarrow> var_itry v \<le> 1000 \<Longrightarrow>
   \<exists>v'. CharmHadronLoop env E EHad MHad v = Returned v' \<and> var_pdgc v' = 0
      \<and> var_itry v' = 1000"
proof (induction env E EHad MHad v rule: CharmHadronLoop.induct)
  case (1 env E EHad MHad v)
  show ?case
  proof (cases "var_itry v < 1000")
    case True
    from CharmHadronTry_rejected [OF "1.prems"(1,2), of E EHad v]
    obtain v1 where t: "CharmHadronTry env E EHad MHad v = Returned v1"
      and p: "var_pdgc v1 = 0" and i: "var_itry v1 = var_itry v + 1"
      by blast
    from True i have "var_itry v1 \<le> 1000" by simp
    from True "1.prems"(3) have g: "var_itry v < 1000 \<and> var_pdgc v = 0" by simp
    from "1.IH" [OF g t "1.prems"(1,2) p \<open>var_itry v1 \<le> 1000\<close>]
    obtain v' where "CharmHadronLoop env E EHad MHad v1 = Returned v'"
      "var_pdgc v' = 0" "var_itry v' = 1000"
      by blast
    with g t show ?thesis
      by (subst CharmHadronLoop.simps) simp
  next
    case False
    with "1.prems" show ?thesis
      by (subst CharmHadronLoop.simps) simp
  qed
qed

text \<open>
  Claim C5, at the failing input. For a hadronic system of invariant mass 1.5 GeV the
  loop rejects all of its 1000 tries and leaves \<open>pdgc = 0\<close>; the assertion of line 107
  then fails and the process ends (\<open>Aborted\<close>). No event flag is set and no
  \<^verbatim>\<open>EVGThreadException\<close> is thrown: it is not the current event alone that is
  given up. (In a build without assertions the function goes on with \<open>pdgc = 0\<close>; the
  event is not flagged there either.)
\<close>

theorem GenerateCharmHadronOnly_retries_exhausted:
  "GenerateCharmHadronOnly_pdgc ex_Charm_env \<lparr>Rndm_calls = 0, GenerateZ_calls = 0\<rparr> ex_Charm_evrec
     = Aborted
   \<and> (\<exists>v. CharmHadronLoop ex_Charm_env 10 (5 / 2) (3 / 2)
             \<lparr>var_itry = 0, var_pdgc = 0, var_z = 0, var_m = 0, var_EC = 0, var_m2 = 0,
              var_EC2 = 0, var_p2 = 0, var_rnd = \<lparr>Rndm_calls = 0, GenerateZ_calls = 0\<rparr>\<rparr>
             = Returned v
          \<and> var_itry v = 1000 \<and> var_pdgc v = 0)"
proof -
  have a: "\<forall>pdg ppdg. PDGLibrary_Find ex_Charm_env pdg = Some ppdg \<longrightarrow> 3 / 2 < Mass ppdg"
    by (auto simp: ex_Charm_env_def split: if_splits)
  have b: "\<forall>pdg \<in> {421, 411, 431, 4122}. PDGLibrary_Find ex_Charm_env pdg \<noteq> None"
    by (simp add: ex_Charm_env_def)
  have e: "GetProbeE ex_Charm_env ex_Charm_evrec = 10"
    "lvT (Hadronic4pLAB ex_Charm_env ex_Charm_evrec) = 5 / 2"
    "TLorentzVector_M ex_Charm_env (Hadronic4pLAB ex_Charm_env ex_Charm_evrec) = 3 / 2"
    by (simp_all add: ex_Charm_env_def)
  let ?v0 = "\<lparr>var_itry = 0, var_pdgc = 0, var_z = 0, var_m = 0, var_EC = 0, var_m2 = 0,
              var_EC2 = 0, var_p2 = 0, var_rnd = \<lparr>Rndm_calls = 0, GenerateZ_calls = 0\<rparr>\<rparr>"
  from CharmHadronLoop_all_rejected [OF a b, of ?v0 10 "5 / 2"]
  obtain v' where l: "CharmHadronLoop ex_Charm_env 10 (5 / 2) (3 / 2) ?v0 = Returned v'"
    and p: "var_pdgc v' = 0" and i: "var_itry v' = 1000"
    by auto
  from l p have "GenerateCharmHadronOnly_pdgc ex_Charm_env \<lparr>Rndm_calls = 0, GenerateZ_calls = 0\<rparr>
      ex_Charm_evrec = Aborted"
    by (simp add: GenerateCharmHadronOnly_pdgc_def Let_def e del: CharmHadronLoop.simps)
  with l p i show ?thesis by blast
qed

text \<open>
  With enough invariant mass (3 GeV) and hadronic energy (5 GeV) the first try is
  accepted: a strange charmed meson (431) of half the hadronic energy.
\<close>

lemma CharmHadronLoop_first_try_accepted:
  "CharmHadronLoop ex_Charm_env 10 5 3
     \<lparr>var_itry = 0, var_pdgc = 0, var_z = 0, var_m = 0, var_EC = 0, var_m2 = 0,
      var_EC2 = 0, var_p2 = 0, var_rnd = \<lparr>Rndm_calls = 0, GenerateZ_calls = 0\<rparr>\<rparr>
   = Returned
     \<lparr>var_itry = 1, var_pdgc = 431, var_z = 1 / 2, var_m = 19682 / 10000, var_EC = 5 / 2,
      var_m2 = (19682 / 10000)\<^sup>2, var_EC2 = (5 / 2)\<^sup>2,
      var_p2 = (5 / 2)\<^sup>2 - (19682 / 10000)\<^sup>2,
      var_rnd = \<lparr>Rndm_calls = 1, GenerateZ_calls = 1\<rparr>\<rparr>"
  by (simp add: CharmHadronLoop.simps CharmHadronTry_def CharmedHadronPdgCode_def
        ex_Charm_env_def Let_def power2_eq_square)

text \<open>
  The sibling generator gives up the current event only: when the hadronizer returns no
  list, \<^verbatim>\<open>AddFragmentationProducts\<close> sets the bit \<^verbatim>\<open>kNoAvailablePhaseSpace\<close> of the
  event flags and throws an \<^verbatim>\<open>EVGThreadException\<close>, and no entry is appended.
\<close>

lemma AddFragmentationProducts_no_phase_space:
  assumes "Hadronize env ((GetInteraction evrec)
             \<lparr>Kinematics_W := TLorentzVector_M env (Hadronic4pLAB env evrec)\<rparr>) = None"
  shows "\<exists>evrec'. AddFragmentationProducts env evrec =
            Thrown \<lparr>Reason = ''Not enough phase space for hadronizer'', FastForward = True\<rparr> evrec'
          \<and> EventFlags evrec' (kNoAvailablePhaseSpace env)
          \<and> particles evrec' = particles evrec"
  using assms by (simp add: AddFragmentationProducts_def Let_def)

subsection \<open>The selection probabilities of the channels\<close>

lemma sum_list_ChannelProbabilities:
  "(\<Sum>(c, p) \<leftarrow> ChannelProbabilities chans lt. p) = lt * (\<Sum>(c, l) \<leftarrow> chans. 1 / l)"
  unfolding ChannelProbabilities_def by (induction chans) (auto simp: algebra_simps)

lemma SelectFate_from_covered:
  "lo \<le> u \<Longrightarrow> u < lo + (\<Sum>(c, p) \<leftarrow> cs. p) \<Longrightarrow> SelectFate_from lo cs u \<in> fst ` set cs"
proof (induction cs arbitrary: lo)
  case Nil
  then show ?case by simp
next
  case (Cons a cs)
  obtain c p where a: "a = (c, p)" by (cases a)
  show ?case
  proof (cases "u < lo + p")
    case True
    with a show ?thesis by simp
  next
    case False
    then have "lo + p \<le> u" by simp
    moreover from Cons.prems a have "u < (lo + p) + (\<Sum>(c, p) \<leftarrow> cs. p)" by simp
    ultimately have "SelectFate_from (lo + p) cs u \<in> fst ` set cs" by (rule Cons.IH)
    with False a show ?thesis by simp
  qed
qed

lemma SelectFate_from_beyond:
  "\<forall>(c, p) \<in> set cs. 0 \<le> p \<Longrightarrow> lo + (\<Sum>(c, p) \<leftarrow> cs. p) \<le> u \<Longrightarrow>
   SelectFate_from lo cs u = NoInteraction"
proof (induction cs arbitrary: lo)
  case Nil
  then show ?case by simp
next
  case (Cons a cs)
  obtain c p where a: "a = (c, p)" by (cases a)
  from Cons.prems(1) have nn: "0 \<le> (\<Sum>(c, p) \<leftarrow> cs. p)"
    by (intro sum_list_nonneg) auto
  from Cons.prems(2) a nn have "\<not> u < lo + p" by simp
  moreover from Cons.prems a have "SelectFate_from (lo + p) cs u = NoInteraction"
    by (intro Cons.IH) (simp_all add: add.assoc)
  ultimately show ?case using a by simp
qed

lemma sum_inverse_positive:
  "\<forall>(c, l) \<in> set chans. (0::real) < l \<Longrightarrow> chans \<noteq> [] \<Longrightarrow> 0 < (\<Sum>(c, l) \<leftarrow> chans. 1 / l)"
proof (induction chans)
  case Nil
  then show ?case by simp
next
  case (Cons a chans)
  obtain c l where a: "a = (c, l)" by (cases a)
  with Cons.prems have l: "0 < 1 / l" by simp
  from Cons.prems have "0 \<le> (\<Sum>(c, l) \<leftarrow> chans. 1 / l)"
    by (intro sum_list_nonneg) auto
  with l have "0 < 1 / l + (\<Sum>(c, l) \<leftarrow> chans. 1 / l)"
    by (rule add_pos_nonneg)
  with a show ?case by simp
qed

text \<open>
  Claim C3. For channels with strictly positive mean free paths whose total mean free
  path, by the combining rule, is a length \<open>lt\<close> other than zero: \<open>lt\<close> is positive, the
  selection probabilities \<open>lt/lambda_channel\<close> are positive and their sum is 1. The
  segments of the channels then cover \<open>[0, 1)\<close> and nothing more: a number of \<open>[0, 1)\<close>
  selects one of the channels, a number from 1 on selects none.
\<close>

theorem ChannelProbabilities_sum_to_one:
  assumes "\<forall>(c, l) \<in> set chans. 0 < l"
      and "TotalMeanFreePath chans = Finite lt"
      and "lt \<noteq> 0"
  shows "0 < lt
       \<and> (\<Sum>(c, p) \<leftarrow> ChannelProbabilities chans lt. p) = 1
       \<and> (\<forall>(c, p) \<in> set (ChannelProbabilities chans lt). 0 < p)
       \<and> (\<forall>u. 0 \<le> u \<and> u < 1 \<longrightarrow> SelectFate chans lt u \<in> fst ` set chans)
       \<and> (\<forall>u. 1 \<le> u \<longrightarrow> SelectFate chans lt u = NoInteraction)"
proof -
  let ?S = "\<Sum>(c, l) \<leftarrow> chans. 1 / l"
  from assms(2) have S: "?S \<noteq> 0" and lt: "lt = 1 / ?S"
    by (auto simp: TotalMeanFreePath_def Let_def split: if_splits)
  from S have ne: "chans \<noteq> []" by auto
  have one: "(\<Sum>(c, p) \<leftarrow> ChannelProbabilities chans lt. p) = 1"
    using S by (simp add: sum_list_ChannelProbabilities lt)
  from sum_inverse_positive [OF assms(1) ne] have t: "0 < lt"
    by (simp add: lt)
  have pos: "\<forall>(c, p) \<in> set (ChannelProbabilities chans lt). 0 < p"
    using assms(1) t by (auto simp: ChannelProbabilities_def)
  have f: "fst ` set (ChannelProbabilities chans lt) = fst ` set chans"
    by (force simp: ChannelProbabilities_def)
  have cov: "SelectFate chans lt u \<in> fst ` set chans" if "0 \<le> u \<and> u < 1" for u
    using SelectFate_from_covered [of 0 u "ChannelProbabilities chans lt"] that one f
    by (simp add: SelectFate_def)
  have bey: "SelectFate chans lt u = NoInteraction" if "1 \<le> u" for u
  proof -
    from pos have "\<forall>(c, p) \<in> set (ChannelProbabilities chans lt). 0 \<le> p"
      by (auto intro: less_imp_le)
    from SelectFate_from_beyond [OF this, of 0 u] that one show ?thesis
      by (simp add: SelectFate_def)
  qed
  from t one pos cov bey show ?thesis by blast
qed

theorem ChannelProbabilities_sum_to_one_witness:
  "TotalMeanFreePath ex_channels = Finite 1
   \<and> ChannelProbabilities ex_channels 1 =
       [(Elastic, 1 / 2), (Inelastic, 1 / 4), (Absorption, 1 / 8), (ChargeExchange, 1 / 8)]
   \<and> (\<Sum>(c, p) \<leftarrow> ChannelProbabilities ex_channels 1. p) = 1
   \<and> SelectFate ex_channels 1 (7 / 10) = Inelastic"
proof -
  have t: "TotalMeanFreePath ex_channels = Finite 1"
    by (simp add: TotalMeanFreePath_def ex_channels_def)
  have p: "\<forall>(c, l) \<in> set ex_channels. 0 < l"
    by (simp add: ex_channels_def)
  have c: "ChannelProbabilities ex_channels 1 =
       [(Elastic, 1 / 2), (Inelastic, 1 / 4), (Absorption, 1 / 8), (ChargeExchange, 1 / 8)]"
    by (simp add: ChannelProbabilities_def ex_channels_def)
  have s: "SelectFate ex_channels 1 (7 / 10) = Inelastic"
    by (simp add: SelectFate_def c)
  from ChannelProbabilities_sum_to_one [OF p t]
  have "(\<Sum>(c, p) \<leftarrow> ChannelProbabilities ex_channels 1. p) = 1"
    by simp
  with t c s show ?thesis by simp
qed

text \<open>
  A species with no channel is outside the theorem: the sum of the rule is 0, so its
  total mean free path is no length (it is infinite), and there is no probability to sum.
\<close>

lemma TotalMeanFreePath_no_channel:
  "TotalMeanFreePath [] = Infinite \<and> ChannelProbabilities [] lt = []"
  by (simp add: TotalMeanFreePath_def ChannelProbabilities_def)

subsection \<open>The transport status moves forward\<close>

lemma CascadeDriver_transition_stage:
  "CascadeDriver_transition s c = Some s' \<Longrightarrow>
     stage s \<le> stage s' \<and> (stage s' = stage s \<longrightarrow> s' = s) \<and> stage s < 3"
  by (induction s c rule: CascadeDriver_transition.induct) (auto split: if_splits)

lemma TransportHistory_length:
  "TransportHistory s cs = Some sts \<Longrightarrow> length sts = Suc (length cs) \<and> sts ! 0 = s"
  by (induction cs arbitrary: s sts) (auto split: option.splits)

lemma TransportHistory_later:
  "TransportHistory s cs = Some sts \<Longrightarrow> t \<in> set sts \<Longrightarrow>
     stage s \<le> stage t \<and> (stage t = stage s \<longrightarrow> t = s)"
proof (induction cs arbitrary: s sts)
  case Nil
  then show ?case by auto
next
  case (Cons c cs)
  from Cons.prems(1) obtain s' sts' where tr: "CascadeDriver_transition s c = Some s'"
    and h: "TransportHistory s' cs = Some sts'" and sts: "sts = s # sts'"
    by (auto split: option.splits)
  show ?case
  proof (cases "t = s")
    case True
    then show ?thesis by simp
  next
    case False
    with Cons.prems(2) sts have "t \<in> set sts'" by simp
    from Cons.IH [OF h this] CascadeDriver_transition_stage [OF tr] show ?thesis
      by auto
  qed
qed

lemma nth_in_set_drop:
  "i \<le> j \<Longrightarrow> j < length xs \<Longrightarrow> xs ! j \<in> set (drop i xs)"
proof -
  assume a: "i \<le> j" "j < length xs"
  then have "drop i xs ! (j - i) = xs ! j" by simp
  moreover from a have "j - i < length (drop i xs)" by simp
  ultimately show ?thesis by (metis nth_mem)
qed

lemma TransportHistory_drop:
  "TransportHistory s cs = Some sts \<Longrightarrow> i < length sts \<Longrightarrow>
     TransportHistory (sts ! i) (drop i cs) = Some (drop i sts)"
proof (induction cs arbitrary: s sts i)
  case Nil
  then show ?case by auto
next
  case (Cons c cs)
  from Cons.prems(1) obtain s' sts' where tr: "CascadeDriver_transition s c = Some s'"
    and h: "TransportHistory s' cs = Some sts'" and sts: "sts = s # sts'"
    by (auto split: option.splits)
  show ?case
  proof (cases i)
    case 0
    with Cons.prems(1) sts show ?thesis by simp
  next
    case (Suc j)
    with Cons.prems(2) sts have "j < length sts'" by simp
    from Cons.IH [OF h this] Suc sts show ?thesis by simp
  qed
qed

lemma TransportHistory_sorted:
  "TransportHistory s cs = Some sts \<Longrightarrow> sorted (map stage sts)"
proof (induction cs arbitrary: s sts)
  case Nil
  then show ?case by auto
next
  case (Cons c cs)
  from Cons.prems(1) obtain s' sts' where tr: "CascadeDriver_transition s c = Some s'"
    and h: "TransportHistory s' cs = Some sts'" and sts: "sts = s # sts'"
    by (auto split: option.splits)
  have "\<forall>t \<in> set sts'. stage s \<le> stage t"
    using TransportHistory_later [OF h] CascadeDriver_transition_stage [OF tr]
    by (meson le_trans)
  with Cons.IH [OF h] sts show ?case by simp
qed

lemma TransportHistory_not_last:
  "TransportHistory s cs = Some sts \<Longrightarrow> Suc i < length sts \<Longrightarrow> stage (sts ! i) < 3"
proof -
  assume h: "TransportHistory s cs = Some sts" and i: "Suc i < length sts"
  from i have "i < length sts" by simp
  from TransportHistory_drop [OF h this]
  have d: "TransportHistory (sts ! i) (drop i cs) = Some (drop i sts)" .
  from TransportHistory_length [OF h] i have "drop i cs \<noteq> []" by simp
  then obtain c cs' where "drop i cs = c # cs'" by (cases "drop i cs") auto
  with d obtain s' where "CascadeDriver_transition (sts ! i) c = Some s'"
    by (auto split: option.splits)
  from CascadeDriver_transition_stage [OF this] show ?thesis by simp
qed

text \<open>
  Claim C2. Along every path of the state machine of the CascadeDriver, from any status:
  \<^item> the place of the status in the chain PreCascade, InFormationZone, Propagating,
    terminal never decreases (stages may be skipped);
  \<^item> a status is not taken again once it was left: between two steps with the same
    status the hadron has that status all along;
  \<^item> a terminal status (Escaped, Absorbed, Rescattered-Terminal) is the last of its path;
  \<^item> after an Elastic or a ChargeExchange outcome the status is Propagating, as it was
    when the interaction was triggered.
\<close>

theorem TransportHistory_monotonic:
  assumes "TransportHistory s cs = Some sts"
  shows "sorted (map stage sts)
       \<and> (\<forall>i j k. i < j \<and> j < k \<and> k < length sts \<and> sts ! k = sts ! i \<longrightarrow> sts ! j = sts ! i)
       \<and> (\<forall>i. Suc i < length sts \<longrightarrow> sts ! i \<notin> {Escaped, Absorbed, RescatteredTerminal})
       \<and> CascadeDriver_transition Propagating (InteractionTriggered Elastic) = Some Propagating
       \<and> CascadeDriver_transition Propagating (InteractionTriggered ChargeExchange) = Some Propagating"
proof -
  have a: "sorted (map stage sts)"
    using assms by (rule TransportHistory_sorted)
  have b: "sts ! j = sts ! i" if "i < j \<and> j < k \<and> k < length sts \<and> sts ! k = sts ! i" for i j k
  proof -
    from that have i: "i < length sts" and j: "j < length sts" and k: "k < length sts"
      by simp_all
    from TransportHistory_drop [OF assms i]
    have di: "TransportHistory (sts ! i) (drop i cs) = Some (drop i sts)" .
    from TransportHistory_drop [OF assms j]
    have dj: "TransportHistory (sts ! j) (drop j cs) = Some (drop j sts)" .
    from that j have "sts ! j \<in> set (drop i sts)"
      by (intro nth_in_set_drop) simp_all
    from TransportHistory_later [OF di this]
    have ij: "stage (sts ! i) \<le> stage (sts ! j) \<and> (stage (sts ! j) = stage (sts ! i) \<longrightarrow> sts ! j = sts ! i)" .
    from that k have "sts ! k \<in> set (drop j sts)"
      by (intro nth_in_set_drop) simp_all
    from TransportHistory_later [OF dj this] have "stage (sts ! j) \<le> stage (sts ! k)"
      by simp
    with that ij show ?thesis by simp
  qed
  have c: "sts ! i \<notin> {Escaped, Absorbed, RescatteredTerminal}" if "Suc i < length sts" for i
    using TransportHistory_not_last [OF assms that] by auto
  show ?thesis
  proof (intro conjI allI impI)
    show "sorted (map stage sts)" by (rule a)
  next
    fix i j k
    assume "i < j \<and> j < k \<and> k < length sts \<and> sts ! k = sts ! i"
    then show "sts ! j = sts ! i" by (rule b)
  next
    fix i
    assume "Suc i < length sts"
    then show "sts ! i \<notin> {Escaped, Absorbed, RescatteredTerminal}" by (rule c)
  qed simp_all
qed

lemma ex_TransportHistory:
  "TransportHistory PreCascade ex_conditions = Some ex_history"
  by (simp add: ex_conditions_def ex_history_def)

theorem TransportHistory_monotonic_witness:
  "TransportHistory PreCascade ex_conditions = Some ex_history
   \<and> sorted (map stage ex_history)
   \<and> map stage ex_history = [0, 1, 1, 2, 2, 2, 3]
   \<and> ex_history ! 3 = Propagating \<and> ex_history ! 5 = Propagating \<and> ex_history ! 4 = Propagating"
proof -
  have e: "ex_history ! 3 = Propagating" "ex_history ! 5 = Propagating"
    by (simp_all add: ex_history_def)
  have m: "map stage ex_history = [0, 1, 1, 2, 2, 2, 3]"
    by (simp add: ex_history_def)
  have l: "(3::nat) < 4 \<and> (4::nat) < 5 \<and> 5 < length ex_history \<and> ex_history ! 5 = ex_history ! 3"
    by (simp add: ex_history_def)
  from TransportHistory_monotonic [OF ex_TransportHistory]
  have s: "sorted (map stage ex_history)"
    and r: "\<forall>i j k. i < j \<and> j < k \<and> k < length ex_history \<and> ex_history ! k = ex_history ! i
              \<longrightarrow> ex_history ! j = ex_history ! i"
    by blast+
  from r l have "ex_history ! 4 = ex_history ! 3" by blast
  with e s m ex_TransportHistory show ?thesis by simp
qed

end
